theory Spec2Isabelle
  imports Complex_Main "HOL-Library.Char_ord" "HOL-Library.List_Lexorder"
    "HOL-Library.Product_Lexorder"
begin

section \<open>Data model\<close>

text \<open>
  The module \<^verbatim>\<open>simulation\<close> (\<^verbatim>\<open>SIMULATION_OUTCOMES\<close>, \<^verbatim>\<open>SimulationResult\<close>) is imported by
  \<^verbatim>\<open>user.py\<close>. An outcome is a Python string; a simulation result is the value that
  \<^verbatim>\<open>complete_simulation\<close> constructs by keyword from five fields.
\<close>

text \<open>Modelled from the spec: the class \<^verbatim>\<open>SimulationResult\<close> of the module \<^verbatim>\<open>simulation\<close>,
  a value object with the fields \<^verbatim>\<open>timestamp\<close>, \<^verbatim>\<open>user_id\<close>, \<^verbatim>\<open>type\<close>, \<^verbatim>\<open>name\<close>,
  \<^verbatim>\<open>outcome\<close>.\<close>

record SimulationResult =
  timestamp :: string
  user_id :: string
  type :: string
  name :: string
  outcome :: string

text \<open>Modelled from the spec: the list \<^verbatim>\<open>SIMULATION_OUTCOMES\<close> of the module \<^verbatim>\<open>simulation\<close>,
  the ordered vocabulary SUCCESS, MISS, FAIL. The comments of \<^verbatim>\<open>user.py\<close> at the three
  positional reads (index 0 is SUCCESS, 1 is MISS, 2 is FAIL) give the same order.
  The functions below take the list as the argument \<open>outs\<close>, so that a statement
  about another declaration order can be made.\<close>

definition SIMULATION_OUTCOMES :: "string list" where
  "SIMULATION_OUTCOMES = [''SUCCESS'', ''MISS'', ''FAIL'']"

text \<open>
  The attributes that \<^verbatim>\<open>User.__init__\<close> sets: \<^verbatim>\<open>id\<close>, \<^verbatim>\<open>type\<close>, \<^verbatim>\<open>name\<close>, \<^verbatim>\<open>history\<close>.
  The identifier (\<^verbatim>\<open>uuid4().hex\<close>) and the name (\<^verbatim>\<open>names.get_first_name()\<close>) come from
  libraries; the constructor of the model takes them as arguments. The history holds
  what \<^verbatim>\<open>complete_simulation\<close> appends, the only writer.
\<close>

record User =
  id_user :: string
  type_user :: string
  name_user :: string
  history :: "SimulationResult list"

definition User_init :: "string \<Rightarrow> string \<Rightarrow> string \<Rightarrow> User" where
  "User_init uuid4_hex first_name type_label =
     \<lparr>id_user = uuid4_hex, type_user = type_label, name_user = first_name, history = []\<rparr>"

text \<open>The five subclasses, and the label each constructor passes to \<^verbatim>\<open>User.__init__\<close>.\<close>

datatype user_class = DummyUser | QuickLearner | SlowLearner | BusyQuickLearner | BusySlowLearner

fun type_label :: "user_class \<Rightarrow> string" where
  "type_label DummyUser = ''Dummy''"
| "type_label QuickLearner = ''QuickLearner''"
| "type_label SlowLearner = ''SlowLearner''"
| "type_label BusyQuickLearner = ''BusyQuickLearner''"
| "type_label BusySlowLearner = ''BusySlowLearner''"

definition subclass_init :: "user_class \<Rightarrow> string \<Rightarrow> string \<Rightarrow> User" where
  "subclass_init cls uuid4_hex first_name = User_init uuid4_hex first_name (type_label cls)"

text \<open>The exceptions that the modelled code can raise.\<close>

datatype error =
    AssertionError string | IndexError | ZeroDivisionError
  | OperationalError | QUERY_SHAPE_MISMATCH

section \<open>Library operations\<close>

text \<open>
  The generator behind \<^verbatim>\<open>random\<close> is hidden global state. The model passes it
  explicitly: the sequence of raw values that the coming library calls will take, one
  value per call. \<^verbatim>\<open>random.random()\<close> returns a multiple of \<^verbatim>\<open>2**-53\<close> in \<open>[0, 1)\<close>, built
  from 53 random bits; \<^verbatim>\<open>random.choice(seq)\<close> raises \<^verbatim>\<open>IndexError\<close> on an empty sequence and
  otherwise returns the element at a random index below its length.
\<close>

type_synonym rng = "nat \<Rightarrow> nat"

definition random_random :: "rng \<Rightarrow> rat \<times> rng" where
  "random_random g = (of_nat (g 0 mod 2 ^ 53) / 2 ^ 53, \<lambda>i. g (Suc i))"

definition randbelow :: "nat \<Rightarrow> rng \<Rightarrow> nat \<times> rng" where
  "randbelow n g = (g 0 mod n, \<lambda>i. g (Suc i))"

definition random_choice :: "'a list \<Rightarrow> rng \<Rightarrow> (error + 'a) \<times> rng" where
  "random_choice seq g =
     (if seq = [] then (Inl IndexError, g)
      else (let (k, g') = randbelow (length seq) g in (Inr (seq ! k), g')))"

text \<open>
  A Python float is the rational number it denotes. The literal \<^verbatim>\<open>0.1\<close> is not one tenth
  but the nearest binary64 value, \<^verbatim>\<open>3602879701896397 / 2**55\<close>; the literal \<^verbatim>\<open>0.5\<close> is exact.
\<close>

definition float_0_1 :: rat where
  "float_0_1 = 3602879701896397 / 36028797018963968"

definition float_0_5 :: rat where
  "float_0_5 = 1 / 2"

text \<open>
  \<^verbatim>\<open>a / b\<close> on two Python ints raises on a zero divisor and otherwise returns the
  binary64 value nearest to the quotient. The rounding is the argument \<open>fl\<close>: Python's
  is \<open>fl = binary64\<close>, defined next, and the exact quotient is \<open>fl = (\<lambda>q. q)\<close>.
\<close>

definition truediv :: "(rat \<Rightarrow> rat) \<Rightarrow> int \<Rightarrow> int \<Rightarrow> error + rat" where
  "truediv fl a b = (if b = 0 then Inl ZeroDivisionError else Inr (fl (of_int a / of_int b)))"

text \<open>
  The rounding of Python: the binary64 value nearest to a rational, ties to the even
  significand. For \<open>x > 0\<close>, \<open>exponent x\<close> is the \<open>e\<close> with \<^verbatim>\<open>2**e <= x < 2**(e+1)\<close>. A
  binary64 value has 53 significant bits, so its last place is \<^verbatim>\<open>2**(e-52)\<close>; below
  \<^verbatim>\<open>2**-1022\<close> the last place stays that of the smallest exponent. A quotient that rounds
  to \<^verbatim>\<open>2**1024\<close> or more makes Python raise \<^verbatim>\<open>OverflowError\<close>; the quotients of the
  learners lie between one tenth and one.
\<close>

fun ilog2 :: "nat \<Rightarrow> nat" where
  "ilog2 n = (if n < 2 then 0 else Suc (ilog2 (n div 2)))"

definition pow2 :: "int \<Rightarrow> rat" where
  "pow2 e = (if 0 \<le> e then 2 ^ nat e else 1 / 2 ^ nat (- e))"

definition exponent :: "rat \<Rightarrow> int" where
  "exponent x =
     (if 1 \<le> x then int (ilog2 (nat \<lfloor>x\<rfloor>))
      else (let l = int (ilog2 (nat \<lfloor>1 / x\<rfloor>)) in if pow2 (- l) \<le> x then - l else - l - 1))"

definition round_half_even :: "rat \<Rightarrow> int" where
  "round_half_even x =
     (let f = \<lfloor>x\<rfloor>; r = x - of_int f in
      if r < 1 / 2 then f else if 1 / 2 < r then f + 1 else if even f then f else f + 1)"

definition binary64 :: "rat \<Rightarrow> rat" where
  "binary64 x =
     (if x = 0 then 0
      else (let e = max (exponent \<bar>x\<bar>) (- 1022); ulp = pow2 (e - 52) in
        sgn x * of_int (round_half_even (\<bar>x\<bar> / ulp)) * ulp))"

text \<open>\<^verbatim>\<open>xs[i]\<close> for a constant index \<open>i \<ge> 0\<close>.\<close>

definition getitem :: "'a list \<Rightarrow> nat \<Rightarrow> error + 'a" where
  "getitem xs i = (if i < length xs then Inr (xs ! i) else Inl IndexError)"

text \<open>
  \<^verbatim>\<open>datetime.strftime(timestamp, "%Y-%m-%d %H:%M:%S")\<close>: decimal fields, zero-padded to
  four digits for the year and to two for the others. (For a year below 1000 the padding
  of \<^verbatim>\<open>%Y\<close> depends on the platform; the model pads.)
\<close>

record datetime =
  year :: nat
  month :: nat
  day :: nat
  hour :: nat
  minute :: nat
  second :: nat

fun digits :: "nat \<Rightarrow> string" where
  "digits n =
     (if n < 10 then [''0123456789'' ! n]
      else digits (n div 10) @ [''0123456789'' ! (n mod 10)])"

definition zero_pad :: "nat \<Rightarrow> nat \<Rightarrow> string" where
  "zero_pad w n = replicate (w - length (digits n)) CHR ''0'' @ digits n"

definition strftime :: "datetime \<Rightarrow> string" where
  "strftime t =
     zero_pad 4 (year t) @ ''-'' @ zero_pad 2 (month t) @ ''-'' @ zero_pad 2 (day t) @ '' '' @
     zero_pad 2 (hour t) @ '':'' @ zero_pad 2 (minute t) @ '':'' @ zero_pad 2 (second t)"

section \<open>The base class\<close>

text \<open>
  \<^verbatim>\<open>non_missed_simulations_completed\<close> runs a counter over the history; the loop is the
  recursion below, the counter its accumulator.
\<close>

fun non_missed_loop :: "SimulationResult list \<Rightarrow> int \<Rightarrow> int" where
  "non_missed_loop [] count = count"
| "non_missed_loop (i # rest) count =
     non_missed_loop rest (if outcome i \<noteq> ''MISS'' then count + 1 else count)"

definition non_missed_simulations_completed :: "User \<Rightarrow> int" where
  "non_missed_simulations_completed self = non_missed_loop (history self) 0"

definition simulations_completed :: "User \<Rightarrow> int" where
  "simulations_completed self = int (length (history self))"

text \<open>
  \<^verbatim>\<open>complete_simulation\<close> calls the method \<^verbatim>\<open>_get_simulation_outcome\<close> of the object's class,
  here the argument \<open>get_outcome\<close>: a function of the user and the generator, as the
  method has no other input. An exception of the method passes through; the
  \<^verbatim>\<open>assert\<close>, taken as executed (the interpreter does not run with \<^verbatim>\<open>-O\<close>), raises
  before anything is formatted or appended. The result is the
  exception or \<^verbatim>\<open>None\<close>, with the user and the generator as the call leaves them.
\<close>

definition complete_simulation ::
  "(User \<Rightarrow> rng \<Rightarrow> (error + string) \<times> rng) \<Rightarrow> string list \<Rightarrow> User \<Rightarrow> datetime \<Rightarrow> rng
     \<Rightarrow> (error + unit) \<times> User \<times> rng" where
  "complete_simulation get_outcome outs self t g =
     (case get_outcome self g of
        (Inl e, g') \<Rightarrow> (Inl e, self, g')
      | (Inr oc, g') \<Rightarrow>
          if oc \<notin> set outs
          then (Inl (AssertionError
                  ''The outcome from your logic is not a valid simulation outcome.''), self, g')
          else (Inr (),
                self\<lparr>history := history self @
                  [\<lparr>timestamp = strftime t, user_id = id_user self, type = type_user self,
                    name = name_user self, outcome = oc\<rparr>]\<rparr>,
                g'))"

text \<open>
  A caller's sequence of calls, one per timestamp and in order, on the same user; an
  exception ends the sequence, as it would end the caller.
\<close>

fun complete_simulations ::
  "(User \<Rightarrow> rng \<Rightarrow> (error + string) \<times> rng) \<Rightarrow> string list \<Rightarrow> User \<Rightarrow> datetime list \<Rightarrow> rng
     \<Rightarrow> (error + unit) \<times> User \<times> rng" where
  "complete_simulations get_outcome outs self [] g = (Inr (), self, g)"
| "complete_simulations get_outcome outs self (t # ts) g =
     (case complete_simulation get_outcome outs self t g of
        (Inl e, self', g') \<Rightarrow> (Inl e, self', g')
      | (Inr _, self', g') \<Rightarrow> complete_simulations get_outcome outs self' ts g')"

section \<open>The subclasses\<close>

definition DummyUser_get_simulation_outcome ::
  "string list \<Rightarrow> User \<Rightarrow> rng \<Rightarrow> (error + string) \<times> rng" where
  "DummyUser_get_simulation_outcome outs self g = random_choice outs g"

text \<open>
  The four learners. Each \<^verbatim>\<open>success_chance\<close> reads the count twice. In
  \<^verbatim>\<open>random.random() < success_chance()\<close> the draw is taken before the chance is computed, and
  the second draw is taken only when the first comparison fails.
\<close>

definition QuickLearner_success_chance :: "(rat \<Rightarrow> rat) \<Rightarrow> User \<Rightarrow> error + rat" where
  "QuickLearner_success_chance fl self =
     truediv fl (non_missed_simulations_completed self + 1)
                (non_missed_simulations_completed self + 10)"

definition QuickLearner_get_simulation_outcome ::
  "(rat \<Rightarrow> rat) \<Rightarrow> string list \<Rightarrow> User \<Rightarrow> rng \<Rightarrow> (error + string) \<times> rng" where
  "QuickLearner_get_simulation_outcome fl outs self g =
     (let (d1, g1) = random_random g in
      if d1 < float_0_1 then (getitem outs 1, g1)
      else (let (d2, g2) = random_random g1 in
        case QuickLearner_success_chance fl self of
          Inl e \<Rightarrow> (Inl e, g2)
        | Inr chance \<Rightarrow>
            if d2 < chance then (getitem outs 0, g2) else (getitem outs 2, g2)))"

definition SlowLearner_success_chance :: "(rat \<Rightarrow> rat) \<Rightarrow> User \<Rightarrow> error + rat" where
  "SlowLearner_success_chance fl self =
     truediv fl (non_missed_simulations_completed self + 3)
                (non_missed_simulations_completed self + 30)"

definition SlowLearner_get_simulation_outcome ::
  "(rat \<Rightarrow> rat) \<Rightarrow> string list \<Rightarrow> User \<Rightarrow> rng \<Rightarrow> (error + string) \<times> rng" where
  "SlowLearner_get_simulation_outcome fl outs self g =
     (let (d1, g1) = random_random g in
      if d1 < float_0_1 then (getitem outs 1, g1)
      else (let (d2, g2) = random_random g1 in
        case SlowLearner_success_chance fl self of
          Inl e \<Rightarrow> (Inl e, g2)
        | Inr chance \<Rightarrow>
            if d2 < chance then (getitem outs 0, g2) else (getitem outs 2, g2)))"

definition BusyQuickLearner_success_chance :: "(rat \<Rightarrow> rat) \<Rightarrow> User \<Rightarrow> error + rat" where
  "BusyQuickLearner_success_chance fl self =
     truediv fl (non_missed_simulations_completed self + 1)
                (non_missed_simulations_completed self + 10)"

definition BusyQuickLearner_get_simulation_outcome ::
  "(rat \<Rightarrow> rat) \<Rightarrow> string list \<Rightarrow> User \<Rightarrow> rng \<Rightarrow> (error + string) \<times> rng" where
  "BusyQuickLearner_get_simulation_outcome fl outs self g =
     (let (d1, g1) = random_random g in
      if d1 < float_0_5 then (getitem outs 1, g1)
      else (let (d2, g2) = random_random g1 in
        case BusyQuickLearner_success_chance fl self of
          Inl e \<Rightarrow> (Inl e, g2)
        | Inr chance \<Rightarrow>
            if d2 < chance then (getitem outs 0, g2) else (getitem outs 2, g2)))"

definition BusySlowLearner_success_chance :: "(rat \<Rightarrow> rat) \<Rightarrow> User \<Rightarrow> error + rat" where
  "BusySlowLearner_success_chance fl self =
     truediv fl (non_missed_simulations_completed self + 3)
                (non_missed_simulations_completed self + 30)"

definition BusySlowLearner_get_simulation_outcome ::
  "(rat \<Rightarrow> rat) \<Rightarrow> string list \<Rightarrow> User \<Rightarrow> rng \<Rightarrow> (error + string) \<times> rng" where
  "BusySlowLearner_get_simulation_outcome fl outs self g =
     (let (d1, g1) = random_random g in
      if d1 < float_0_5 then (getitem outs 1, g1)
      else (let (d2, g2) = random_random g1 in
        case BusySlowLearner_success_chance fl self of
          Inl e \<Rightarrow> (Inl e, g2)
        | Inr chance \<Rightarrow>
            if d2 < chance then (getitem outs 0, g2) else (getitem outs 2, g2)))"

text \<open>The method that a call on an object of class \<open>cls\<close> resolves to.\<close>

fun get_simulation_outcome ::
  "user_class \<Rightarrow> (rat \<Rightarrow> rat) \<Rightarrow> string list \<Rightarrow> User \<Rightarrow> rng \<Rightarrow> (error + string) \<times> rng" where
  "get_simulation_outcome DummyUser fl outs = DummyUser_get_simulation_outcome outs"
| "get_simulation_outcome QuickLearner fl outs = QuickLearner_get_simulation_outcome fl outs"
| "get_simulation_outcome SlowLearner fl outs = SlowLearner_get_simulation_outcome fl outs"
| "get_simulation_outcome BusyQuickLearner fl outs =
     BusyQuickLearner_get_simulation_outcome fl outs"
| "get_simulation_outcome BusySlowLearner fl outs =
     BusySlowLearner_get_simulation_outcome fl outs"

section \<open>The reporting queries\<close>
























section \<open>The form of the learners and the specification's reading\<close>

text \<open>
  The four methods have one form, which differs in the miss threshold and in the quotient
  only: a draw below the threshold gives MISS; otherwise a second draw below the rounded
  quotient, at the count of non-missed entries, gives SUCCESS, and FAIL if not. The
  rounding \<open>fl\<close> is that of the division.
\<close>

definition spec_quick_chance :: "int \<Rightarrow> rat" where
  "spec_quick_chance n = (of_int n + 1) / (of_int n + 10)"

definition spec_slow_chance :: "int \<Rightarrow> rat" where
  "spec_slow_chance n = (of_int n + 3) / (of_int n + 30)"

definition spec_NonMissedCompletedCount :: "User \<Rightarrow> int" where
  "spec_NonMissedCompletedCount u = int (length (filter (\<lambda>r. outcome r \<noteq> ''MISS'') (history u)))"

definition two_stage_draw ::
  "rat \<Rightarrow> (int \<Rightarrow> rat) \<Rightarrow> (rat \<Rightarrow> rat) \<Rightarrow> User \<Rightarrow> rng \<Rightarrow> string \<times> rng" where
  "two_stage_draw threshold chance fl u g =
     (let (d1, g1) = random_random g in
      if d1 < threshold then (''MISS'', g1)
      else (let (d2, g2) = random_random g1 in
        if d2 < fl (chance (spec_NonMissedCompletedCount u)) then (''SUCCESS'', g2)
        else (''FAIL'', g2)))"

text \<open>
  The two-stage draw in the specification's words: a uniform draw below the miss
  probability gives MISS; otherwise a second uniform draw below the success chance
  function, evaluated at the count of history entries whose outcome is not MISS, gives
  SUCCESS, and FAIL if not. The success chance functions are those of the specification's
  table, \<open>(n + 1) / (n + 10)\<close> and \<open>(n + 3) / (n + 30)\<close>, and the draw is compared with
  their value itself.
\<close>

definition spec_ProduceOutcome :: "rat \<Rightarrow> (int \<Rightarrow> rat) \<Rightarrow> User \<Rightarrow> rng \<Rightarrow> string \<times> rng" where
  "spec_ProduceOutcome miss_probability success_chance u g =
     (let (d1, g1) = random_random g in
      if d1 < miss_probability then (''MISS'', g1)
      else (let (d2, g2) = random_random g1 in
        if d2 < success_chance (spec_NonMissedCompletedCount u) then (''SUCCESS'', g2)
        else (''FAIL'', g2)))"


section \<open>Example values\<close>

definition ann :: User where
  "ann = subclass_init QuickLearner ''u1'' ''Ann''"

definition ann_results :: "SimulationResult list" where
  "ann_results =
     [\<lparr>timestamp = ''2022-03-01 09:00:00'', user_id = ''u1'', type = ''QuickLearner'',
       name = ''Ann'', outcome = ''SUCCESS''\<rparr>,
      \<lparr>timestamp = ''2022-03-02 09:00:00'', user_id = ''u1'', type = ''QuickLearner'',
       name = ''Ann'', outcome = ''MISS''\<rparr>,
      \<lparr>timestamp = ''2022-03-15 09:00:00'', user_id = ''u1'', type = ''QuickLearner'',
       name = ''Ann'', outcome = ''FAIL''\<rparr>]"

definition draws_half_then_zero :: rng where
  "draws_half_then_zero i = (if i = 0 then 2 ^ 52 else 0)"

definition custom_outcome :: "User \<Rightarrow> rng \<Rightarrow> (error + string) \<times> rng" where
  "custom_outcome self g = (Inr ''MAYBE'', g)"

definition noon :: datetime where
  "noon = \<lparr>year = 2022, month = 3, day = 1, hour = 12, minute = 0, second = 0\<rparr>"

definition three_days :: "datetime list" where
  "three_days =
     [\<lparr>year = 2022, month = 3, day = 1, hour = 9, minute = 0, second = 0\<rparr>,
      \<lparr>year = 2022, month = 3, day = 2, hour = 9, minute = 0, second = 0\<rparr>,
      \<lparr>year = 2022, month = 3, day = 15, hour = 9, minute = 0, second = 0\<rparr>]"

definition ann_after_three :: User where
  "ann_after_three =
     \<lparr>id_user = ''u1'', type_user = ''QuickLearner'', name_user = ''Ann'',
      history =
        [\<lparr>timestamp = ''2022-03-01 09:00:00'', user_id = ''u1'', type = ''QuickLearner'',
          name = ''Ann'', outcome = ''MISS''\<rparr>,
         \<lparr>timestamp = ''2022-03-02 09:00:00'', user_id = ''u1'', type = ''QuickLearner'',
          name = ''Ann'', outcome = ''MISS''\<rparr>,
         \<lparr>timestamp = ''2022-03-15 09:00:00'', user_id = ''u1'', type = ''QuickLearner'',
          name = ''Ann'', outcome = ''MISS''\<rparr>]\<rparr>"

definition ann_after_one :: User where
  "ann_after_one =
     ann\<lparr>history :=
       [\<lparr>timestamp = ''2022-03-01 12:00:00'', user_id = ''u1'', type = ''QuickLearner'',
         name = ''Ann'', outcome = ''MISS''\<rparr>]\<rparr>"

definition bob_after_one :: User where
  "bob_after_one =
     \<lparr>id_user = ''u2'', type_user = ''SlowLearner'', name_user = ''Bob'',
      history =
        [\<lparr>timestamp = ''2022-04-01 09:00:00'', user_id = ''u2'', type = ''SlowLearner'',
          name = ''Bob'', outcome = ''FAIL''\<rparr>]\<rparr>"

definition ann_result :: "string \<Rightarrow> string \<Rightarrow> SimulationResult" where
  "ann_result t oc =
     \<lparr>timestamp = t, user_id = ''u1'', type = ''QuickLearner'', name = ''Ann'', outcome = oc\<rparr>"



definition nine_successes :: User where
  "nine_successes = ann\<lparr>history := replicate 9 (ann_result ''2022-03-01 09:00:00'' ''SUCCESS'')\<rparr>"

definition draws_half_then_tie :: rng where
  "draws_half_then_tie i = (if i = 0 then 2 ^ 52 else 4740631186705785)"

definition raising_outcome :: "User \<Rightarrow> rng \<Rightarrow> (error + string) \<times> rng" where
  "raising_outcome self g = (Inl ZeroDivisionError, g)"

section \<open>Auxiliary facts\<close>

lemma non_missed_loop_filter:
  "non_missed_loop xs count = count + int (length (filter (\<lambda>r. outcome r \<noteq> ''MISS'') xs))"
  by (induction xs arbitrary: count) simp_all

lemma non_missed_nonneg: "0 \<le> non_missed_simulations_completed self"
  by (simp add: non_missed_simulations_completed_def non_missed_loop_filter)

lemma grid_below_float_0_1:  "(of_nat k / 2 ^ 53 < float_0_1) = (4 * k < 3602879701896397)"
proof -
  have "(of_nat k / 2 ^ 53 < float_0_1) = ((of_nat (4 * k) :: rat) < of_nat 3602879701896397)"
    unfolding float_0_1_def by (simp add: field_simps)
  also have "\<dots> = (4 * k < 3602879701896397)"
    by (simp only: of_nat_less_iff)
  finally show ?thesis .
qed

lemma grid_below_tenth:  "((of_nat k :: rat) / 2 ^ 53 < 1/10) = (10 * k < 9007199254740992)"
proof -
  have "((of_nat k :: rat) / 2 ^ 53 < 1/10) = ((of_nat (10 * k) :: rat) < of_nat 9007199254740992)"
    by (simp add: field_simps)
  also have "\<dots> = (10 * k < 9007199254740992)"
    by (simp only: of_nat_less_iff)
  finally show ?thesis .
qed

lemma draw_below_float_0_1:
  "fst (random_random g) < float_0_1 \<longleftrightarrow> fst (random_random g) < 1 / 10"
proof -
  have "(4 * k < 3602879701896397) = (10 * k < 9007199254740992)" for k :: nat
    by linarith
  then show ?thesis
    unfolding random_random_def fst_conv grid_below_float_0_1 grid_below_tenth by blast
qed

lemma draw_range: "0 \<le> fst (random_random g) \<and> fst (random_random g) < 1"
  by (simp add: random_random_def)

lemma non_missed_spec:
  "non_missed_simulations_completed u = spec_NonMissedCompletedCount u"
  by (simp add: non_missed_simulations_completed_def spec_NonMissedCompletedCount_def
      non_missed_loop_filter)

lemma float_0_5_half: "float_0_5 = 1 / 2"
  by (simp add: float_0_5_def)

lemma getitem_SIMULATION_OUTCOMES:
  "getitem SIMULATION_OUTCOMES 0 = Inr ''SUCCESS''"
  "getitem SIMULATION_OUTCOMES 1 = Inr ''MISS''"
  "getitem SIMULATION_OUTCOMES (Suc 0) = Inr ''MISS''"
  "getitem SIMULATION_OUTCOMES 2 = Inr ''FAIL''"
  by (simp_all add: getitem_def SIMULATION_OUTCOMES_def)

lemma Quick_chance_value:
  "QuickLearner_success_chance fl u = Inr (fl (spec_quick_chance (non_missed_simulations_completed u)))"
  using non_missed_nonneg [of u]
  by (simp add: QuickLearner_success_chance_def truediv_def spec_quick_chance_def)

lemma Slow_chance_value:
  "SlowLearner_success_chance fl u = Inr (fl (spec_slow_chance (non_missed_simulations_completed u)))"
  using non_missed_nonneg [of u]
  by (simp add: SlowLearner_success_chance_def truediv_def spec_slow_chance_def)

lemma BusyQuick_chance_value:
  "BusyQuickLearner_success_chance fl u = Inr (fl (spec_quick_chance (non_missed_simulations_completed u)))"
  using non_missed_nonneg [of u]
  by (simp add: BusyQuickLearner_success_chance_def truediv_def spec_quick_chance_def)

lemma BusySlow_chance_value:
  "BusySlowLearner_success_chance fl u = Inr (fl (spec_slow_chance (non_missed_simulations_completed u)))"
  using non_missed_nonneg [of u]
  by (simp add: BusySlowLearner_success_chance_def truediv_def spec_slow_chance_def)

lemma Quick_refines:
  "QuickLearner_get_simulation_outcome fl SIMULATION_OUTCOMES u g =
     apfst Inr (two_stage_draw (1 / 10) spec_quick_chance fl u g)"
  by (simp add: QuickLearner_get_simulation_outcome_def two_stage_draw_def
      Quick_chance_value non_missed_spec getitem_SIMULATION_OUTCOMES
      draw_below_float_0_1 split_beta Let_def)

lemma Slow_refines:
  "SlowLearner_get_simulation_outcome fl SIMULATION_OUTCOMES u g =
     apfst Inr (two_stage_draw (1 / 10) spec_slow_chance fl u g)"
  by (simp add: SlowLearner_get_simulation_outcome_def two_stage_draw_def
      Slow_chance_value non_missed_spec getitem_SIMULATION_OUTCOMES
      draw_below_float_0_1 split_beta Let_def)

lemma BusyQuick_refines:
  "BusyQuickLearner_get_simulation_outcome fl SIMULATION_OUTCOMES u g =
     apfst Inr (two_stage_draw (1 / 2) spec_quick_chance fl u g)"
  by (simp add: BusyQuickLearner_get_simulation_outcome_def two_stage_draw_def
      BusyQuick_chance_value non_missed_spec getitem_SIMULATION_OUTCOMES
      float_0_5_half split_beta Let_def)

lemma BusySlow_refines:
  "BusySlowLearner_get_simulation_outcome fl SIMULATION_OUTCOMES u g =
     apfst Inr (two_stage_draw (1 / 2) spec_slow_chance fl u g)"
  by (simp add: BusySlowLearner_get_simulation_outcome_def two_stage_draw_def
      BusySlow_chance_value non_missed_spec getitem_SIMULATION_OUTCOMES
      float_0_5_half split_beta Let_def)

lemma two_stage_draw_vocabulary:
  "fst (two_stage_draw p f fl u g) \<in> set SIMULATION_OUTCOMES"
  by (simp add: two_stage_draw_def SIMULATION_OUTCOMES_def split_beta Let_def)

lemma complete_simulation_Inr:
  "get_outcome self g = (Inr oc, g') \<Longrightarrow> oc \<in> set outs \<Longrightarrow>
   complete_simulation get_outcome outs self t g =
     (Inr (),
      self\<lparr>history := history self @
        [\<lparr>timestamp = strftime t, user_id = id_user self, type = type_user self,
          name = name_user self, outcome = oc\<rparr>]\<rparr>,
      g')"
  by (simp add: complete_simulation_def)

lemma complete_simulation_invalid:
  "get_outcome self g = (Inr oc, g') \<Longrightarrow> oc \<notin> set outs \<Longrightarrow>
   complete_simulation get_outcome outs self t g =
     (Inl (AssertionError ''The outcome from your logic is not a valid simulation outcome.''),
      self, g')"
  by (simp add: complete_simulation_def)

lemma complete_simulation_raise:
  "get_outcome self g = (Inl e, g') \<Longrightarrow>
   complete_simulation get_outcome outs self t g = (Inl e, self, g')"
  by (simp add: complete_simulation_def)

lemma complete_simulation_cases:
  obtains (raise) e g' where "get_outcome self g = (Inl e, g')"
      "complete_simulation get_outcome outs self t g = (Inl e, self, g')"
  | (invalid) oc g' where "get_outcome self g = (Inr oc, g')" "oc \<notin> set outs"
      "complete_simulation get_outcome outs self t g =
         (Inl (AssertionError ''The outcome from your logic is not a valid simulation outcome.''),
          self, g')"
  | (append) oc g' where "get_outcome self g = (Inr oc, g')" "oc \<in> set outs"
      "complete_simulation get_outcome outs self t g =
         (Inr (),
          self\<lparr>history := history self @
            [\<lparr>timestamp = strftime t, user_id = id_user self, type = type_user self,
              name = name_user self, outcome = oc\<rparr>]\<rparr>,
          g')"
proof (cases "get_outcome self g")
  case (Pair r g')
  show ?thesis
  proof (cases r)
    case (Inl e)
    show ?thesis
      by (rule raise [of e g']) (simp_all add: Pair Inl complete_simulation_def)
  next
    case (Inr oc)
    show ?thesis
    proof (cases "oc \<in> set outs")
      case True
      show ?thesis
        by (rule append [of oc g']) (simp_all add: Pair Inr True complete_simulation_def)
    next
      case False
      show ?thesis
        by (rule invalid [of oc g']) (simp_all add: Pair Inr False complete_simulation_def)
    qed
  qed
qed

lemma complete_simulation_step:
  assumes "complete_simulation get_outcome outs self t g = (Inr x, self', g')"
  shows "\<exists>oc. oc \<in> set outs \<and> self' = self\<lparr>history := history self @
        [\<lparr>timestamp = strftime t, user_id = id_user self, type = type_user self,
          name = name_user self, outcome = oc\<rparr>]\<rparr>"
proof (cases rule: complete_simulation_cases [of get_outcome self g outs t])
  case (raise e g')
  with assms show ?thesis by simp
next
  case (invalid oc g')
  with assms show ?thesis by simp
next
  case (append oc g')
  with assms show ?thesis by auto
qed

lemma complete_simulation_fail_same:
  assumes "complete_simulation get_outcome outs self t g = (Inl e, self', g')"
  shows "self' = self"
proof (cases rule: complete_simulation_cases [of get_outcome self g outs t])
  case (raise e g')
  with assms show ?thesis by simp
next
  case (invalid oc g')
  with assms show ?thesis by simp
next
  case (append oc g')
  with assms show ?thesis by simp
qed

lemma complete_simulations_grows:
  "complete_simulations get_outcome outs self ts g = (r, self', g') \<Longrightarrow>
   (\<exists>new. history self' = history self @ new \<and> length new \<le> length ts \<and>
      (r = Inr () \<longrightarrow> length new = length ts) \<and>
      list_all (\<lambda>x. user_id x = id_user self \<and> type x = type_user self \<and>
        name x = name_user self \<and> outcome x \<in> set outs) new) \<and>
   id_user self' = id_user self \<and> type_user self' = type_user self \<and>
   name_user self' = name_user self"
proof (induction ts arbitrary: self g)
  case Nil
  then show ?case by simp
next
  case (Cons t ts)
  obtain r1 self1 g1 where c: "complete_simulation get_outcome outs self t g = (r1, self1, g1)"
    by (cases "complete_simulation get_outcome outs self t g") auto
  show ?case
  proof (cases r1)
    case (Inl e)
    with c have "self1 = self" by (simp add: complete_simulation_fail_same)
    with c Inl Cons.prems show ?thesis by auto
  next
    case (Inr x)
    with c Cons.prems
    have rest: "complete_simulations get_outcome outs self1 ts g1 = (r, self', g')"
      by simp
    from c Inr obtain oc where oc: "oc \<in> set outs"
      and s1: "self1 = self\<lparr>history := history self @
        [\<lparr>timestamp = strftime t, user_id = id_user self, type = type_user self,
          name = name_user self, outcome = oc\<rparr>]\<rparr>"
      using complete_simulation_step by blast
    from Cons.IH [OF rest] obtain new where
      n: "history self' = history self1 @ new" "length new \<le> length ts"
        "r = Inr () \<longrightarrow> length new = length ts"
        "list_all (\<lambda>x. user_id x = id_user self1 \<and> type x = type_user self1 \<and>
          name x = name_user self1 \<and> outcome x \<in> set outs) new"
      and i: "id_user self' = id_user self1" "type_user self' = type_user self1"
        "name_user self' = name_user self1"
      by blast
    let ?r0 = "\<lparr>timestamp = strftime t, user_id = id_user self, type = type_user self,
          name = name_user self, outcome = oc\<rparr>"
    have "history self' = history self @ (?r0 # new)"
      using n(1) s1 by simp
    moreover have "length (?r0 # new) \<le> length (t # ts)"
      using n(2) by simp
    moreover have "r = Inr () \<longrightarrow> length (?r0 # new) = length (t # ts)"
      using n(3) by simp
    moreover have "list_all (\<lambda>x. user_id x = id_user self \<and> type x = type_user self \<and>
        name x = name_user self \<and> outcome x \<in> set outs) (?r0 # new)"
      using n(4) oc s1 by simp
    ultimately show ?thesis
      using i s1 by (intro conjI exI [of _ "?r0 # new"]) simp_all
  qed
qed

lemma learner_complete_simulation:
  assumes "get_outcome u g = apfst Inr (two_stage_draw p f fl u g)"
  shows "complete_simulation get_outcome SIMULATION_OUTCOMES u t g =
     (Inr (),
      u\<lparr>history := history u @
        [\<lparr>timestamp = strftime t, user_id = id_user u, type = type_user u,
          name = name_user u, outcome = fst (two_stage_draw p f fl u g)\<rparr>]\<rparr>,
      snd (two_stage_draw p f fl u g))"
proof (rule complete_simulation_Inr)
  show "get_outcome u g =
    (Inr (fst (two_stage_draw p f fl u g)), snd (two_stage_draw p f fl u g))"
    using assms by (simp add: apfst_def map_prod_def split_beta)
  show "fst (two_stage_draw p f fl u g) \<in> set SIMULATION_OUTCOMES"
    by (rule two_stage_draw_vocabulary)
qed

lemma float_0_1_below_half: "float_0_1 < 1 / 2"
  by (simp add: float_0_1_def)

lemma two_stage_draw_MISS:
  "fst (two_stage_draw p f fl u g) = ''MISS'' \<longleftrightarrow> fst (random_random g) < p"
  by (simp add: two_stage_draw_def split_beta Let_def)

lemma two_stage_draw_same_count:
  "non_missed_simulations_completed u' = non_missed_simulations_completed u \<Longrightarrow>
   two_stage_draw p f fl u' g = two_stage_draw p f fl u g"
  by (simp add: two_stage_draw_def non_missed_spec split_beta Let_def)

lemma two_stage_draw_engaged:
  "\<not> fst (random_random g) < p \<Longrightarrow> \<not> fst (random_random g) < p' \<Longrightarrow>
   two_stage_draw p f fl u g = two_stage_draw p' f fl u g"
  by (simp add: two_stage_draw_def split_beta Let_def)

lemma busy_parts:
  assumes "non_missed_simulations_completed u' = non_missed_simulations_completed u"
  shows "BusyQuickLearner_success_chance fl u' = QuickLearner_success_chance fl u"
    and "BusySlowLearner_success_chance fl u' = SlowLearner_success_chance fl u"
    and "\<not> fst (random_random g) < 1 / 2 \<longrightarrow>
         BusyQuickLearner_get_simulation_outcome fl SIMULATION_OUTCOMES u' g =
         QuickLearner_get_simulation_outcome fl SIMULATION_OUTCOMES u g"
    and "\<not> fst (random_random g) < 1 / 2 \<longrightarrow>
         BusySlowLearner_get_simulation_outcome fl SIMULATION_OUTCOMES u' g =
         SlowLearner_get_simulation_outcome fl SIMULATION_OUTCOMES u g"
    and "fst (BusyQuickLearner_get_simulation_outcome fl SIMULATION_OUTCOMES u' g) = Inr ''MISS''
         \<longleftrightarrow> fst (random_random g) < 1 / 2"
    and "fst (BusySlowLearner_get_simulation_outcome fl SIMULATION_OUTCOMES u' g) = Inr ''MISS''
         \<longleftrightarrow> fst (random_random g) < 1 / 2"
    and "fst (QuickLearner_get_simulation_outcome fl SIMULATION_OUTCOMES u g) = Inr ''MISS''
         \<longleftrightarrow> fst (random_random g) < 1 / 10"
    and "fst (SlowLearner_get_simulation_outcome fl SIMULATION_OUTCOMES u g) = Inr ''MISS''
         \<longleftrightarrow> fst (random_random g) < 1 / 10"
proof -
  show "BusyQuickLearner_success_chance fl u' = QuickLearner_success_chance fl u"
    by (simp add: BusyQuick_chance_value Quick_chance_value assms)
  show "BusySlowLearner_success_chance fl u' = SlowLearner_success_chance fl u"
    by (simp add: BusySlow_chance_value Slow_chance_value assms)
  have engaged: "\<not> fst (random_random g) < 1 / 10" if "\<not> fst (random_random g) < 1 / 2"
    using that by simp
  show "\<not> fst (random_random g) < 1 / 2 \<longrightarrow>
         BusyQuickLearner_get_simulation_outcome fl SIMULATION_OUTCOMES u' g =
         QuickLearner_get_simulation_outcome fl SIMULATION_OUTCOMES u g"
    using engaged
    by (simp only: BusyQuick_refines Quick_refines two_stage_draw_same_count [OF assms])
      (metis two_stage_draw_engaged)
  show "\<not> fst (random_random g) < 1 / 2 \<longrightarrow>
         BusySlowLearner_get_simulation_outcome fl SIMULATION_OUTCOMES u' g =
         SlowLearner_get_simulation_outcome fl SIMULATION_OUTCOMES u g"
    using engaged
    by (simp only: BusySlow_refines Slow_refines two_stage_draw_same_count [OF assms])
      (metis two_stage_draw_engaged)
  show "fst (BusyQuickLearner_get_simulation_outcome fl SIMULATION_OUTCOMES u' g) = Inr ''MISS''
         \<longleftrightarrow> fst (random_random g) < 1 / 2"
    by (simp only: BusyQuick_refines fst_apfst sum.inject two_stage_draw_MISS)
  show "fst (BusySlowLearner_get_simulation_outcome fl SIMULATION_OUTCOMES u' g) = Inr ''MISS''
         \<longleftrightarrow> fst (random_random g) < 1 / 2"
    by (simp only: BusySlow_refines fst_apfst sum.inject two_stage_draw_MISS)
  show "fst (QuickLearner_get_simulation_outcome fl SIMULATION_OUTCOMES u g) = Inr ''MISS''
         \<longleftrightarrow> fst (random_random g) < 1 / 10"
    by (simp only: Quick_refines fst_apfst sum.inject two_stage_draw_MISS)
  show "fst (SlowLearner_get_simulation_outcome fl SIMULATION_OUTCOMES u g) = Inr ''MISS''
         \<longleftrightarrow> fst (random_random g) < 1 / 10"
    by (simp only: Slow_refines fst_apfst sum.inject two_stage_draw_MISS)
qed


lemma Dummy_valid:
  "\<exists>oc g'. DummyUser_get_simulation_outcome SIMULATION_OUTCOMES u g = (Inr oc, g') \<and>
     oc \<in> set SIMULATION_OUTCOMES"
proof -
  have "SIMULATION_OUTCOMES ! (g 0 mod length SIMULATION_OUTCOMES) \<in> set SIMULATION_OUTCOMES"
    by (rule nth_mem) (simp add: SIMULATION_OUTCOMES_def)
  moreover have "SIMULATION_OUTCOMES \<noteq> []"
    by (simp add: SIMULATION_OUTCOMES_def)
  ultimately show ?thesis
    by (simp add: DummyUser_get_simulation_outcome_def random_choice_def randbelow_def)
qed

lemma learner_valid:
  assumes "r = apfst Inr (two_stage_draw p f fl u g)"
  shows "\<exists>oc g'. r = (Inr oc, g') \<and> oc \<in> set SIMULATION_OUTCOMES"
proof (intro exI conjI)
  show "r =
    (Inr (fst (two_stage_draw p f fl u g)), snd (two_stage_draw p f fl u g))"
    using assms by (simp add: apfst_def map_prod_def split_beta)
  show "fst (two_stage_draw p f fl u g) \<in> set SIMULATION_OUTCOMES"
    by (rule two_stage_draw_vocabulary)
qed

lemma variant_valid:
  "\<exists>oc g'. get_simulation_outcome cls fl SIMULATION_OUTCOMES u g = (Inr oc, g') \<and>
     oc \<in> set SIMULATION_OUTCOMES"
proof (cases cls)
  case DummyUser
  then show ?thesis using Dummy_valid by simp
next
  case QuickLearner
  then show ?thesis using learner_valid [OF Quick_refines] by simp
next
  case SlowLearner
  then show ?thesis using learner_valid [OF Slow_refines] by simp
next
  case BusyQuickLearner
  then show ?thesis using learner_valid [OF BusyQuick_refines] by simp
next
  case BusySlowLearner
  then show ?thesis using learner_valid [OF BusySlow_refines] by simp
qed

lemma variant_complete_simulation:
  "fst (complete_simulation (get_simulation_outcome cls fl SIMULATION_OUTCOMES)
     SIMULATION_OUTCOMES u t g) = Inr ()"
proof -
  from variant_valid [of cls fl u g] obtain oc g' where
    "get_simulation_outcome cls fl SIMULATION_OUTCOMES u g = (Inr oc, g')"
    "oc \<in> set SIMULATION_OUTCOMES"
    by blast
  then show ?thesis by (simp add: complete_simulation_Inr)
qed

lemma variant_complete_simulations:
  "fst (complete_simulations (get_simulation_outcome cls fl SIMULATION_OUTCOMES)
     SIMULATION_OUTCOMES u ts g) = Inr ()"
proof (induction ts arbitrary: u g)
  case Nil
  show ?case by simp
next
  case (Cons t ts)
  obtain r u1 g1 where c: "complete_simulation (get_simulation_outcome cls fl SIMULATION_OUTCOMES)
     SIMULATION_OUTCOMES u t g = (r, u1, g1)"
    by (cases "complete_simulation (get_simulation_outcome cls fl SIMULATION_OUTCOMES)
     SIMULATION_OUTCOMES u t g") auto
  with variant_complete_simulation [of cls fl u t g] have "r = Inr ()" by simp
  with c Cons.IH [of u1 g1] show ?case by simp
qed








lemma filter_bound_other:
  "list_all (\<lambda>x. user_id x = i) xs \<Longrightarrow> i \<noteq> j \<Longrightarrow> filter (\<lambda>x. user_id x = j) xs = []"
  by (induction xs) auto

lemma filter_bound_same:
  "list_all (\<lambda>x. user_id x = i) xs \<Longrightarrow> filter (\<lambda>x. user_id x = i) xs = xs"
  by (induction xs) auto

lemma quick_mono: "0 \<le> n \<Longrightarrow> n < m \<Longrightarrow> spec_quick_chance n < spec_quick_chance m"
proof -
  assume n: "0 \<le> n" and nm: "n < m"
  have p: "(0::rat) < of_int n + 10" "(0::rat) < of_int m + 10"
    using n nm by linarith+
  have "(of_int n + 1) * (of_int m + 10) < (of_int m + 1) * (of_int n + (10::rat))"
  proof -
    have "(n + 1) * (m + 10) < (m + 1) * (n + 10)"
      using nm by (simp add: algebra_simps)
    then have "(of_int ((n + 1) * (m + 10)) :: rat) < of_int ((m + 1) * (n + 10))"
      by (simp only: of_int_less_iff)
    then show ?thesis by simp
  qed
  with p show ?thesis
    by (simp add: spec_quick_chance_def divide_less_eq less_divide_eq mult.commute)
qed

lemma quick_eq: "0 \<le> n \<Longrightarrow> spec_quick_chance n = 1 - 9 / (of_int n + 10)"
proof -
  assume "0 \<le> n"
  then have "(of_int n + 10 :: rat) \<noteq> 0" by linarith
  then show ?thesis by (simp add: spec_quick_chance_def field_simps)
qed

lemma slow_eq: "0 \<le> n \<Longrightarrow> spec_slow_chance n = 1 - 27 / (of_int n + 30)"
proof -
  assume "0 \<le> n"
  then have "(of_int n + 30 :: rat) \<noteq> 0" by linarith
  then show ?thesis by (simp add: spec_slow_chance_def field_simps)
qed

lemma shift_at_top: "filterlim (\<lambda>k. d + real k) at_top sequentially"
  by (rule filterlim_tendsto_add_at_top [OF tendsto_const filterlim_real_sequentially])

lemma inverse_shift_tendsto: "(\<lambda>k. c / (d + real k)) \<longlonglongrightarrow> 0"
  by (rule real_tendsto_divide_at_top [OF tendsto_const shift_at_top])

lemma quick_limit: "(\<lambda>k. real_of_rat (spec_quick_chance (int k))) \<longlonglongrightarrow> 1"
proof -
  have "(\<lambda>k. 1 - 9 / (10 + real k)) \<longlonglongrightarrow> 1 - 0"
    by (intro tendsto_diff tendsto_const inverse_shift_tendsto)
  moreover have "real_of_rat (spec_quick_chance (int k)) = 1 - 9 / (10 + real k)" for k
    by (simp add: quick_eq of_rat_diff of_rat_divide of_rat_add add.commute)
  ultimately show ?thesis by simp
qed

lemma slow_mono: "0 \<le> n \<Longrightarrow> n < m \<Longrightarrow> spec_slow_chance n < spec_slow_chance m"
proof -
  assume n: "0 \<le> n" and nm: "n < m"
  have p: "(0::rat) < of_int n + 30" "(0::rat) < of_int m + 30"
    using n nm by linarith+
  have "(of_int n + 3) * (of_int m + 30) < (of_int m + 3) * (of_int n + (30::rat))"
  proof -
    have "(n + 3) * (m + 30) < (m + 3) * (n + 30)"
      using nm by (simp add: algebra_simps)
    then have "(of_int ((n + 3) * (m + 30)) :: rat) < of_int ((m + 3) * (n + 30))"
      by (simp only: of_int_less_iff)
    then show ?thesis by simp
  qed
  with p show ?thesis
    by (simp add: spec_slow_chance_def divide_less_eq less_divide_eq mult.commute)
qed

lemma slow_limit: "(\<lambda>k. real_of_rat (spec_slow_chance (int k))) \<longlonglongrightarrow> 1"
proof -
  have "(\<lambda>k. 1 - 27 / (30 + real k)) \<longlonglongrightarrow> 1 - 0"
    by (intro tendsto_diff tendsto_const inverse_shift_tendsto)
  moreover have "real_of_rat (spec_slow_chance (int k)) = 1 - 27 / (30 + real k)" for k
    by (simp add: slow_eq of_rat_diff of_rat_divide of_rat_add add.commute)
  ultimately show ?thesis by simp
qed

lemma quick_bounds: "0 \<le> n \<Longrightarrow> 0 < spec_quick_chance n \<and> spec_quick_chance n < 1"
proof -
  assume "0 \<le> n"
  then have "(0::rat) < of_int n + 10" "(0::rat) < of_int n + 1" by linarith+
  then show ?thesis by (simp add: spec_quick_chance_def)
qed

lemma slow_bounds: "0 \<le> n \<Longrightarrow> 0 < spec_slow_chance n \<and> spec_slow_chance n < 1"
proof -
  assume "0 \<le> n"
  then have "(0::rat) < of_int n + 30" "(0::rat) < of_int n + 3" by linarith+
  then show ?thesis by (simp add: spec_slow_chance_def)
qed

lemma ann_three_days_run:
  "complete_simulations (QuickLearner_get_simulation_outcome id SIMULATION_OUTCOMES)
     SIMULATION_OUTCOMES (User_init ''u1'' ''Ann'' ''QuickLearner'') three_days id =
     (Inr (), ann_after_three, (\<lambda>i. Suc (Suc (Suc i))))"
  by (simp add: three_days_def complete_simulation_def QuickLearner_get_simulation_outcome_def
      random_random_def float_0_1_def getitem_def SIMULATION_OUTCOMES_def User_init_def
      strftime_def zero_pad_def ann_after_three_def)

lemma ann_noon_step:
  "complete_simulation (QuickLearner_get_simulation_outcome id SIMULATION_OUTCOMES)
     SIMULATION_OUTCOMES ann noon id = (Inr (), ann_after_one, Suc)"
proof -
  have "(\<lambda>i. id (Suc i)) = Suc" by (rule ext) simp
  then show ?thesis
    by (simp add: complete_simulation_def QuickLearner_get_simulation_outcome_def
        random_random_def float_0_1_def getitem_def SIMULATION_OUTCOMES_def ann_def
        subclass_init_def User_init_def strftime_def zero_pad_def noon_def ann_after_one_def)
qed






















text \<open>
  The rounding: \<open>exponent\<close> brackets a positive rational between two powers of two, and
  \<open>binary64 x\<close> lies within half a unit in the last place of \<open>x\<close>.
\<close>

declare ilog2.simps [simp del]

lemma ilog2_bracket: "0 < n \<Longrightarrow> 2 ^ ilog2 n \<le> n \<and> n < 2 ^ Suc (ilog2 n)"
proof (induction n rule: ilog2.induct)
  case (1 n)
  show ?case
  proof (cases "n < 2")
    case True
    then have "ilog2 n = 0" by (subst ilog2.simps) simp
    with "1.prems" True show ?thesis by simp
  next
    case False
    then have "0 < n div 2" by simp
    with "1.IH" False have ih: "2 ^ ilog2 (n div 2) \<le> n div 2"
      "n div 2 < 2 ^ Suc (ilog2 (n div 2))"
      by simp_all
    have s: "ilog2 n = Suc (ilog2 (n div 2))"
      using False by (subst ilog2.simps) simp
    from ih show ?thesis unfolding s by simp linarith
  qed
qed

lemma pow2_pos: "0 < pow2 e"
  by (simp add: pow2_def)

lemma pow2_nat: "pow2 (int k) = 2 ^ k"
  by (simp add: pow2_def)

lemma pow2_neg_nat: "pow2 (- int k) = 1 / 2 ^ k"
proof (cases "k = 0")
  case True
  then show ?thesis by (simp add: pow2_def)
next
  case False
  then have "\<not> 0 \<le> - int k" by simp
  then show ?thesis by (simp add: pow2_def)
qed

lemma pow2_Suc: "pow2 (e + 1) = 2 * pow2 e"
proof (cases "0 \<le> e")
  case True
  then show ?thesis by (simp add: pow2_def nat_add_distrib)
next
  case False
  then obtain k where k: "e = - int (Suc k)"
    by (metis neg_int_cases not_le zero_less_Suc gr0_implies_Suc of_nat_0_less_iff less_imp_neq)
  have "pow2 (- int (Suc k) + 1) = pow2 (- int k)" by simp
  then show ?thesis unfolding k by (simp add: pow2_neg_nat del: of_nat_Suc)
qed

lemma floor_nat_bracket:
  assumes "1 \<le> (y::rat)"
  shows "0 < nat \<lfloor>y\<rfloor>" "of_nat (nat \<lfloor>y\<rfloor>) \<le> y" "y < of_nat (nat \<lfloor>y\<rfloor>) + 1"
proof -
  from assms have f: "1 \<le> \<lfloor>y\<rfloor>" by simp
  then show "0 < nat \<lfloor>y\<rfloor>" by simp
  from f have "(of_nat (nat \<lfloor>y\<rfloor>) :: rat) = of_int \<lfloor>y\<rfloor>" by simp
  then show "of_nat (nat \<lfloor>y\<rfloor>) \<le> y" "y < of_nat (nat \<lfloor>y\<rfloor>) + 1"
    by linarith+
qed

lemma ilog2_floor_bracket:
  assumes "1 \<le> (y::rat)"
  shows "2 ^ ilog2 (nat \<lfloor>y\<rfloor>) \<le> y \<and> y < 2 ^ Suc (ilog2 (nat \<lfloor>y\<rfloor>))"
proof -
  let ?n = "nat \<lfloor>y\<rfloor>"
  from floor_nat_bracket [OF assms] have n: "0 < ?n" "of_nat ?n \<le> y" "y < of_nat ?n + 1"
    by simp_all
  from ilog2_bracket [OF n(1)] have b: "2 ^ ilog2 ?n \<le> ?n" "?n + 1 \<le> 2 ^ Suc (ilog2 ?n)"
    by simp_all
  from b(1) have "(of_nat (2 ^ ilog2 ?n) :: rat) \<le> of_nat ?n"
    by (rule of_nat_mono)
  then have "(2::rat) ^ ilog2 ?n \<le> of_nat ?n"
    by (simp only: of_nat_power of_nat_numeral)
  with n(2) have l: "2 ^ ilog2 ?n \<le> y" by linarith
  from b(2) have "(of_nat (?n + 1) :: rat) \<le> of_nat (2 ^ Suc (ilog2 ?n))"
    by (rule of_nat_mono)
  then have "of_nat ?n + 1 \<le> (2::rat) ^ Suc (ilog2 ?n)"
    by (simp only: of_nat_power of_nat_numeral of_nat_add of_nat_1)
  with n(3) have "y < 2 ^ Suc (ilog2 ?n)" by linarith
  with l show ?thesis by (rule conjI)
qed

lemma exponent_bracket:
  assumes "0 < x"
  shows "pow2 (exponent x) \<le> x \<and> x < pow2 (exponent x + 1)"
proof (cases "1 \<le> x")
  case True
  from ilog2_floor_bracket [OF True] True show ?thesis
    by (simp add: exponent_def pow2_Suc pow2_nat)
next
  case False
  with assms have y: "1 \<le> 1 / x" by simp
  let ?l = "ilog2 (nat \<lfloor>1 / x\<rfloor>)"
  from ilog2_floor_bracket [OF y] have b: "2 ^ ?l \<le> 1 / x" "1 / x < 2 ^ Suc ?l"
    by simp_all
  from b(1) assms have u: "x \<le> 1 / 2 ^ ?l"
    by (simp add: field_simps)
  from b(2) assms have l: "1 / 2 ^ Suc ?l < x"
    by (simp add: field_simps)
  show ?thesis
  proof (cases "pow2 (- int ?l) \<le> x")
    case True
    then have e: "exponent x = - int ?l"
      using False by (simp add: exponent_def Let_def)
    have "(0::rat) < 1 / 2 ^ ?l" by simp
    with u have "x < 2 * (1 / 2 ^ ?l)" by linarith
    then have "x < 2 * pow2 (- int ?l)"
      by (simp only: pow2_neg_nat)
    with True show ?thesis unfolding e pow2_Suc by (rule conjI)
  next
    case n: False
    then have e: "exponent x = - int ?l - 1"
      using False by (simp add: exponent_def Let_def)
    have e': "- int ?l - 1 = - int (Suc ?l)" by simp
    have "pow2 (- int ?l - 1) \<le> x"
      unfolding e' pow2_neg_nat using l by simp
    moreover have "x < pow2 (- int ?l - 1 + 1)"
      using n by simp
    ultimately show ?thesis unfolding e by simp
  qed
qed

lemma round_half_even_near: "\<bar>of_int (round_half_even x) - x\<bar> \<le> 1 / 2"
proof -
  have "of_int \<lfloor>x\<rfloor> \<le> x" "x < of_int \<lfloor>x\<rfloor> + 1" by linarith+
  then show ?thesis
    by (auto simp: round_half_even_def Let_def abs_le_iff)
qed

lemma binary64_near:
  assumes "0 < x"
  shows "\<bar>binary64 x - x\<bar> \<le> pow2 (max (exponent x) (- 1022) - 52) / 2"
proof -
  let ?ulp = "pow2 (max (exponent x) (- 1022) - 52)"
  have p: "0 < ?ulp" by (rule pow2_pos)
  have b: "binary64 x = of_int (round_half_even (x / ?ulp)) * ?ulp"
    using assms by (simp add: binary64_def Let_def)
  have "\<bar>of_int (round_half_even (x / ?ulp)) - x / ?ulp\<bar> \<le> 1 / 2"
    by (rule round_half_even_near)
  then have "\<bar>of_int (round_half_even (x / ?ulp)) - x / ?ulp\<bar> * ?ulp \<le> 1 / 2 * ?ulp"
    using p by (simp only: mult_le_cancel_right_pos)
  moreover have "\<bar>of_int (round_half_even (x / ?ulp)) - x / ?ulp\<bar> * ?ulp =
      \<bar>of_int (round_half_even (x / ?ulp)) * ?ulp - x\<bar>"
  proof -
    have "\<bar>of_int (round_half_even (x / ?ulp)) - x / ?ulp\<bar> * ?ulp =
        \<bar>(of_int (round_half_even (x / ?ulp)) - x / ?ulp) * ?ulp\<bar>"
      using p by (simp add: abs_mult)
    also have "(of_int (round_half_even (x / ?ulp)) - x / ?ulp) * ?ulp =
        of_int (round_half_even (x / ?ulp)) * ?ulp - x"
      using p by (simp add: left_diff_distrib)
    finally show ?thesis .
  qed
  ultimately show ?thesis unfolding b by simp
qed

lemma spec_ProduceOutcome_exact:
  "spec_ProduceOutcome p f u g = two_stage_draw p f (\<lambda>q. q) u g"
  by (simp add: spec_ProduceOutcome_def two_stage_draw_def)

lemma binary64_tenth: "binary64 (1 / 10) = float_0_1"
  by code_simp

lemma binary64_ten_nineteenths: "binary64 (10 / 19) = 4740631186705785 / 2 ^ 53"
  by code_simp

lemma nine_successes_count: "spec_NonMissedCompletedCount nine_successes = 9"
  by (simp add: spec_NonMissedCompletedCount_def nine_successes_def ann_result_def)

lemma tie_draws:
  "fst (random_random draws_half_then_tie) = 1 / 2"
  "fst (random_random (snd (random_random draws_half_then_tie))) = 4740631186705785 / 2 ^ 53"
  by (simp_all add: random_random_def draws_half_then_tie_def)

section \<open>The counts\<close>

text \<open>
  C5. \<^verbatim>\<open>non_missed_simulations_completed\<close> returns the number of history entries whose
  outcome is not MISS and \<^verbatim>\<open>simulations_completed\<close> the length of the history, so the first
  never exceeds the second. Both are functions of the history as it is at the call:
  after an append the first has grown by one exactly when the new entry is not a MISS,
  and the second by one.
\<close>

theorem counts_reflect_history:
  "non_missed_simulations_completed self =
     int (length (filter (\<lambda>r. outcome r \<noteq> ''MISS'') (history self))) \<and>
   simulations_completed self = int (length (history self)) \<and>
   non_missed_simulations_completed self \<le> simulations_completed self \<and>
   non_missed_simulations_completed (self\<lparr>history := history self @ [r]\<rparr>) =
     non_missed_simulations_completed self + (if outcome r \<noteq> ''MISS'' then 1 else 0) \<and>
   simulations_completed (self\<lparr>history := history self @ [r]\<rparr>) =
     simulations_completed self + 1"
  by (simp add: non_missed_simulations_completed_def simulations_completed_def
      non_missed_loop_filter)

theorem counts_reflect_history_witness:
  "non_missed_simulations_completed (ann\<lparr>history := ann_results\<rparr>) = 2 \<and>
   simulations_completed (ann\<lparr>history := ann_results\<rparr>) = 3"
  using counts_reflect_history [of "ann\<lparr>history := ann_results\<rparr>"]
  by (simp add: ann_results_def)

section \<open>The learners\<close>

text \<open>
  C1, as amended. With the vocabulary as declared, each of the four learner methods is a
  two-stage draw: MISS when the first draw is below the miss probability (one tenth for
  \<^verbatim>\<open>QuickLearner\<close> and \<^verbatim>\<open>SlowLearner\<close>, one half for the busy classes); otherwise SUCCESS
  when a second draw is below the binary64 value nearest to the success chance,
  \<open>(n + 1) / (n + 10)\<close> or \<open>(n + 3) / (n + 30)\<close> at the number \<open>n\<close> of non-missed entries
  of the history, and FAIL if not. The draws lie on the grid of \<^verbatim>\<open>random.random()\<close>, where
  the comparison with the float \<^verbatim>\<open>0.1\<close> and the comparison with one tenth agree. The
  user that the method reads is the one before the call: \<^verbatim>\<open>complete_simulation\<close> appends
  the outcome drawn for the history as it was. With no rounding the form is the
  specification's two-stage draw.
\<close>

theorem learners_two_stage_draw_binary64:
  "QuickLearner_get_simulation_outcome binary64 SIMULATION_OUTCOMES u g =
     apfst Inr (two_stage_draw (1 / 10) spec_quick_chance binary64 u g) \<and>
   SlowLearner_get_simulation_outcome binary64 SIMULATION_OUTCOMES u g =
     apfst Inr (two_stage_draw (1 / 10) spec_slow_chance binary64 u g) \<and>
   BusyQuickLearner_get_simulation_outcome binary64 SIMULATION_OUTCOMES u g =
     apfst Inr (two_stage_draw (1 / 2) spec_quick_chance binary64 u g) \<and>
   BusySlowLearner_get_simulation_outcome binary64 SIMULATION_OUTCOMES u g =
     apfst Inr (two_stage_draw (1 / 2) spec_slow_chance binary64 u g) \<and>
   complete_simulation (QuickLearner_get_simulation_outcome binary64 SIMULATION_OUTCOMES)
       SIMULATION_OUTCOMES u t g =
     (Inr (),
      u\<lparr>history := history u @
        [\<lparr>timestamp = strftime t, user_id = id_user u, type = type_user u, name = name_user u,
          outcome = fst (two_stage_draw (1 / 10) spec_quick_chance binary64 u g)\<rparr>]\<rparr>,
      snd (two_stage_draw (1 / 10) spec_quick_chance binary64 u g)) \<and>
   complete_simulation (SlowLearner_get_simulation_outcome binary64 SIMULATION_OUTCOMES)
       SIMULATION_OUTCOMES u t g =
     (Inr (),
      u\<lparr>history := history u @
        [\<lparr>timestamp = strftime t, user_id = id_user u, type = type_user u, name = name_user u,
          outcome = fst (two_stage_draw (1 / 10) spec_slow_chance binary64 u g)\<rparr>]\<rparr>,
      snd (two_stage_draw (1 / 10) spec_slow_chance binary64 u g)) \<and>
   complete_simulation (BusyQuickLearner_get_simulation_outcome binary64 SIMULATION_OUTCOMES)
       SIMULATION_OUTCOMES u t g =
     (Inr (),
      u\<lparr>history := history u @
        [\<lparr>timestamp = strftime t, user_id = id_user u, type = type_user u, name = name_user u,
          outcome = fst (two_stage_draw (1 / 2) spec_quick_chance binary64 u g)\<rparr>]\<rparr>,
      snd (two_stage_draw (1 / 2) spec_quick_chance binary64 u g)) \<and>
   complete_simulation (BusySlowLearner_get_simulation_outcome binary64 SIMULATION_OUTCOMES)
       SIMULATION_OUTCOMES u t g =
     (Inr (),
      u\<lparr>history := history u @
        [\<lparr>timestamp = strftime t, user_id = id_user u, type = type_user u, name = name_user u,
          outcome = fst (two_stage_draw (1 / 2) spec_slow_chance binary64 u g)\<rparr>]\<rparr>,
      snd (two_stage_draw (1 / 2) spec_slow_chance binary64 u g)) \<and>
   two_stage_draw p f (\<lambda>q. q) u g = spec_ProduceOutcome p f u g"
  by (intro conjI Quick_refines Slow_refines BusyQuick_refines BusySlow_refines
      learner_complete_simulation spec_ProduceOutcome_exact [symmetric])

theorem learners_two_stage_draw_binary64_witness:
  "fst (QuickLearner_get_simulation_outcome binary64 SIMULATION_OUTCOMES ann id) =
     Inr ''MISS'' \<and>
   fst (QuickLearner_get_simulation_outcome binary64 SIMULATION_OUTCOMES ann
     draws_half_then_zero) = Inr ''SUCCESS'' \<and>
   fst (QuickLearner_get_simulation_outcome binary64 SIMULATION_OUTCOMES nine_successes
     draws_half_then_tie) = Inr ''FAIL''"
proof -
  have n: "spec_NonMissedCompletedCount ann = 0"
    by (simp add: spec_NonMissedCompletedCount_def ann_def subclass_init_def User_init_def)
  have d: "fst (random_random id) = 0" "fst (random_random draws_half_then_zero) = 1 / 2"
    "fst (random_random (snd (random_random draws_half_then_zero))) = 0"
    by (simp_all add: random_random_def draws_half_then_zero_def)
  have 1: "fst (two_stage_draw (1 / 10) spec_quick_chance binary64 ann id) = ''MISS''"
    by (simp add: two_stage_draw_def split_beta Let_def d)
  have 2: "fst (two_stage_draw (1 / 10) spec_quick_chance binary64 ann draws_half_then_zero) =
      ''SUCCESS''"
    by (simp add: two_stage_draw_def split_beta Let_def d n spec_quick_chance_def
        binary64_tenth float_0_1_def)
  have 3: "fst (two_stage_draw (1 / 10) spec_quick_chance binary64 nine_successes
      draws_half_then_tie) = ''FAIL''"
    by (simp add: two_stage_draw_def split_beta Let_def tie_draws nine_successes_count
        spec_quick_chance_def binary64_ten_nineteenths)
  from 1 2 3 learners_two_stage_draw_binary64 [of ann id]
    learners_two_stage_draw_binary64 [of ann draws_half_then_zero]
    learners_two_stage_draw_binary64 [of nine_successes draws_half_then_tie]
  show ?thesis by simp
qed

text \<open>
  The claim C1 as stated fails: for a user with nine SUCCESS entries the success chance
  is \<open>10 / 19\<close>; with a first draw of one half and a second draw of
  \<^verbatim>\<open>4740631186705785 / 2**53\<close>, which is below \<open>10 / 19\<close> and is the float that the
  division returns, \<^verbatim>\<open>QuickLearner\<close> returns FAIL where the draw below the success chance
  calls for SUCCESS.
\<close>

theorem quick_learner_rounded_chance:
  "fst (QuickLearner_get_simulation_outcome binary64 SIMULATION_OUTCOMES nine_successes
     draws_half_then_tie) = Inr ''FAIL'' \<and>
   fst (spec_ProduceOutcome (1 / 10) spec_quick_chance nine_successes draws_half_then_tie) =
     ''SUCCESS'' \<and>
   fst (random_random (snd (random_random draws_half_then_tie))) <
     spec_quick_chance (spec_NonMissedCompletedCount nine_successes)"
proof -
  have "fst (two_stage_draw (1 / 10) spec_quick_chance binary64 nine_successes
      draws_half_then_tie) = ''FAIL''"
    by (simp add: two_stage_draw_def split_beta Let_def tie_draws nine_successes_count
        spec_quick_chance_def binary64_ten_nineteenths)
  moreover have "fst (spec_ProduceOutcome (1 / 10) spec_quick_chance nine_successes
      draws_half_then_tie) = ''SUCCESS''"
    by (simp add: spec_ProduceOutcome_def split_beta Let_def tie_draws nine_successes_count
        spec_quick_chance_def)
  moreover have "fst (random_random (snd (random_random draws_half_then_tie))) <
     spec_quick_chance (spec_NonMissedCompletedCount nine_successes)"
    by (simp add: tie_draws nine_successes_count spec_quick_chance_def)
  ultimately show ?thesis by (simp add: Quick_refines)
qed

text \<open>
  C2. Over exact rationals (\<open>fl = (\<lambda>q. q)\<close>) the success chance of \<^verbatim>\<open>QuickLearner\<close> and
  \<^verbatim>\<open>BusyQuickLearner\<close> is \<open>(n + 1) / (n + 10)\<close> and that of \<^verbatim>\<open>SlowLearner\<close> and
  \<^verbatim>\<open>BusySlowLearner\<close> is \<open>(n + 3) / (n + 30)\<close>, at the count \<open>n \<ge> 0\<close> of non-missed
  entries. Both functions are one tenth at \<open>0\<close>, strictly increasing on \<open>n \<ge> 0\<close>,
  strictly between \<open>0\<close> and \<open>1\<close> there, and tend to \<open>1\<close>.
\<close>

theorem success_chance_curves:
  "QuickLearner_success_chance (\<lambda>q. q) u =
     Inr (spec_quick_chance (non_missed_simulations_completed u)) \<and>
   BusyQuickLearner_success_chance (\<lambda>q. q) u =
     Inr (spec_quick_chance (non_missed_simulations_completed u)) \<and>
   SlowLearner_success_chance (\<lambda>q. q) u =
     Inr (spec_slow_chance (non_missed_simulations_completed u)) \<and>
   BusySlowLearner_success_chance (\<lambda>q. q) u =
     Inr (spec_slow_chance (non_missed_simulations_completed u)) \<and>
   0 \<le> non_missed_simulations_completed u \<and>
   spec_quick_chance 0 = 1 / 10 \<and> spec_slow_chance 0 = 1 / 10 \<and>
   (\<forall>n m. 0 \<le> n \<and> n < m \<longrightarrow> spec_quick_chance n < spec_quick_chance m) \<and>
   (\<forall>n m. 0 \<le> n \<and> n < m \<longrightarrow> spec_slow_chance n < spec_slow_chance m) \<and>
   (\<forall>n. 0 \<le> n \<longrightarrow> 0 < spec_quick_chance n \<and> spec_quick_chance n < 1) \<and>
   (\<forall>n. 0 \<le> n \<longrightarrow> 0 < spec_slow_chance n \<and> spec_slow_chance n < 1) \<and>
   (\<lambda>k. real_of_rat (spec_quick_chance (int k))) \<longlonglongrightarrow> 1 \<and>
   (\<lambda>k. real_of_rat (spec_slow_chance (int k))) \<longlonglongrightarrow> 1"
proof (intro conjI allI impI)
  show "spec_quick_chance 0 = 1 / 10" "spec_slow_chance 0 = 1 / 10"
    by (simp_all add: spec_quick_chance_def spec_slow_chance_def)
qed (simp_all add: Quick_chance_value BusyQuick_chance_value Slow_chance_value
    BusySlow_chance_value non_missed_nonneg quick_mono slow_mono quick_bounds slow_bounds
    quick_limit slow_limit)

theorem success_chance_curves_witness:
  "QuickLearner_success_chance (\<lambda>q. q) (ann\<lparr>history := ann_results\<rparr>) = Inr (1 / 4) \<and>
   SlowLearner_success_chance (\<lambda>q. q) (ann\<lparr>history := ann_results\<rparr>) = Inr (5 / 32) \<and>
   (0::int) \<le> 2 \<and> (2::int) < 3 \<and> spec_quick_chance 2 < spec_quick_chance 3 \<and>
   spec_slow_chance 2 < spec_slow_chance 3 \<and>
   0 < spec_quick_chance 2 \<and> spec_quick_chance 2 < 1"
proof -
  have n: "non_missed_simulations_completed (ann\<lparr>history := ann_results\<rparr>) = 2"
    by (simp add: non_missed_simulations_completed_def ann_results_def)
  have v: "spec_quick_chance 2 = 1 / 4" "spec_slow_chance 2 = 5 / 32"
    by (simp_all add: spec_quick_chance_def spec_slow_chance_def)
  from success_chance_curves [of "ann\<lparr>history := ann_results\<rparr>"] n v
  show ?thesis by (simp del: of_rat_divide)
qed

text \<open>
  C6. A busy learner and its counterpart, on users with the same number of non-missed
  entries and with the same draws: the success chance is the same; when the first draw
  is not below one half, neither misses and both return the same outcome and leave the
  same generator; the busy learner misses exactly when the first draw is below one half,
  its counterpart exactly when it is below one tenth.
\<close>

theorem busy_differs_in_miss_probability_only:
  assumes "non_missed_simulations_completed u' = non_missed_simulations_completed u"
  shows "BusyQuickLearner_success_chance fl u' = QuickLearner_success_chance fl u \<and>
    BusySlowLearner_success_chance fl u' = SlowLearner_success_chance fl u \<and>
    (\<not> fst (random_random g) < 1 / 2 \<longrightarrow>
       BusyQuickLearner_get_simulation_outcome fl SIMULATION_OUTCOMES u' g =
       QuickLearner_get_simulation_outcome fl SIMULATION_OUTCOMES u g) \<and>
    (\<not> fst (random_random g) < 1 / 2 \<longrightarrow>
       BusySlowLearner_get_simulation_outcome fl SIMULATION_OUTCOMES u' g =
       SlowLearner_get_simulation_outcome fl SIMULATION_OUTCOMES u g) \<and>
    (fst (BusyQuickLearner_get_simulation_outcome fl SIMULATION_OUTCOMES u' g) = Inr ''MISS''
       \<longleftrightarrow> fst (random_random g) < 1 / 2) \<and>
    (fst (BusySlowLearner_get_simulation_outcome fl SIMULATION_OUTCOMES u' g) = Inr ''MISS''
       \<longleftrightarrow> fst (random_random g) < 1 / 2) \<and>
    (fst (QuickLearner_get_simulation_outcome fl SIMULATION_OUTCOMES u g) = Inr ''MISS''
       \<longleftrightarrow> fst (random_random g) < 1 / 10) \<and>
    (fst (SlowLearner_get_simulation_outcome fl SIMULATION_OUTCOMES u g) = Inr ''MISS''
       \<longleftrightarrow> fst (random_random g) < 1 / 10)"
  by (intro conjI busy_parts [OF assms])

theorem busy_differs_in_miss_probability_only_witness:
  "non_missed_simulations_completed (ann\<lparr>history := ann_results\<rparr>) =
     non_missed_simulations_completed (ann\<lparr>history := rev ann_results\<rparr>) \<and>
   \<not> fst (random_random draws_half_then_zero) < 1 / 2 \<and>
   BusyQuickLearner_get_simulation_outcome id SIMULATION_OUTCOMES
       (ann\<lparr>history := ann_results\<rparr>) draws_half_then_zero =
     QuickLearner_get_simulation_outcome id SIMULATION_OUTCOMES
       (ann\<lparr>history := rev ann_results\<rparr>) draws_half_then_zero \<and>
   fst (random_random ((+) (2 ^ 51))) < 1 / 2 \<and>
   fst (BusyQuickLearner_get_simulation_outcome id SIMULATION_OUTCOMES
       (ann\<lparr>history := ann_results\<rparr>) ((+) (2 ^ 51))) = Inr ''MISS'' \<and>
   fst (QuickLearner_get_simulation_outcome id SIMULATION_OUTCOMES
       (ann\<lparr>history := rev ann_results\<rparr>) ((+) (2 ^ 51))) \<noteq> Inr ''MISS''"
proof -
  have same: "non_missed_simulations_completed (ann\<lparr>history := ann_results\<rparr>) =
     non_missed_simulations_completed (ann\<lparr>history := rev ann_results\<rparr>)"
    by (simp add: non_missed_simulations_completed_def ann_results_def)
  have d: "\<not> fst (random_random draws_half_then_zero) < 1 / 2"
    "fst (random_random ((+) (2 ^ 51))) < 1 / 2"
    "\<not> fst (random_random ((+) (2 ^ 51))) < 1 / 10"
    by (simp_all add: random_random_def draws_half_then_zero_def)
  from same d
    busy_differs_in_miss_probability_only [OF same, of id draws_half_then_zero]
    busy_differs_in_miss_probability_only [OF same, of id "(+) (2 ^ 51)"]
  show ?thesis by blast
qed

text \<open>
  C7. For each of the five classes, every user and every generator, the method returns
  an outcome and the outcome is in the vocabulary. So \<^verbatim>\<open>complete_simulation\<close> returns
  for them, and so does any sequence of calls: the assertion never fails.
\<close>

theorem provided_variants_never_fail:
  "(\<exists>oc g'. get_simulation_outcome cls fl SIMULATION_OUTCOMES u g = (Inr oc, g') \<and>
      oc \<in> set SIMULATION_OUTCOMES) \<and>
   fst (complete_simulation (get_simulation_outcome cls fl SIMULATION_OUTCOMES)
     SIMULATION_OUTCOMES u t g) = Inr () \<and>
   fst (complete_simulations (get_simulation_outcome cls fl SIMULATION_OUTCOMES)
     SIMULATION_OUTCOMES u ts g) = Inr ()"
  by (intro conjI variant_valid variant_complete_simulation variant_complete_simulations)

theorem provided_variants_never_fail_witness:
  "get_simulation_outcome DummyUser id SIMULATION_OUTCOMES ann ((+) 5) =
     (Inr ''FAIL'', (+) 6) \<and>
   ''FAIL'' \<in> set SIMULATION_OUTCOMES \<and>
   fst (complete_simulation (get_simulation_outcome DummyUser id SIMULATION_OUTCOMES)
     SIMULATION_OUTCOMES ann noon ((+) 5)) = Inr ()"
proof -
  have "(\<lambda>i. 5 + Suc i) = (+) 6" by (rule ext) simp
  then have "get_simulation_outcome DummyUser id SIMULATION_OUTCOMES ann ((+) 5) =
     (Inr ''FAIL'', (+) 6)"
    by (simp add: DummyUser_get_simulation_outcome_def random_choice_def randbelow_def
        SIMULATION_OUTCOMES_def)
  with provided_variants_never_fail [of DummyUser id ann "(+) 5" noon "[]"]
  show ?thesis by auto
qed

section \<open>Completing a simulation\<close>

text \<open>
  C3, as amended. \<^verbatim>\<open>complete_simulation\<close> raises exactly if the method of the variant
  raises, and then the exception passes through, or returns an outcome outside the
  vocabulary, and then the assertion fails. In both cases the user is as before the
  call and nothing is recorded. Otherwise it appends one result, built from the outcome,
  the formatted timestamp and the user's identifier, type and name.
\<close>

theorem complete_simulation_fails_iff:
  "(isl (fst (complete_simulation get_outcome outs self t g)) \<longleftrightarrow>
      isl (fst (get_outcome self g)) \<or>
      (\<exists>oc. fst (get_outcome self g) = Inr oc \<and> oc \<notin> set outs)) \<and>
   (isl (fst (complete_simulation get_outcome outs self t g)) \<longrightarrow>
      fst (snd (complete_simulation get_outcome outs self t g)) = self) \<and>
   (get_outcome self g = (Inl e, g') \<longrightarrow>
      complete_simulation get_outcome outs self t g = (Inl e, self, g')) \<and>
   (get_outcome self g = (Inr oc, g') \<longrightarrow>
      (isl (fst (complete_simulation get_outcome outs self t g)) \<longleftrightarrow> oc \<notin> set outs) \<and>
      (oc \<notin> set outs \<longrightarrow>
         complete_simulation get_outcome outs self t g =
           (Inl (AssertionError
              ''The outcome from your logic is not a valid simulation outcome.''), self, g')) \<and>
      (oc \<in> set outs \<longrightarrow>
         complete_simulation get_outcome outs self t g =
           (Inr (),
            self\<lparr>history := history self @
              [\<lparr>timestamp = strftime t, user_id = id_user self, type = type_user self,
                name = name_user self, outcome = oc\<rparr>]\<rparr>,
            g')))"
proof (intro conjI)
  show "isl (fst (complete_simulation get_outcome outs self t g)) \<longleftrightarrow>
      isl (fst (get_outcome self g)) \<or>
      (\<exists>oc. fst (get_outcome self g) = Inr oc \<and> oc \<notin> set outs)"
    by (cases rule: complete_simulation_cases [of get_outcome self g outs t]) simp_all
  show "isl (fst (complete_simulation get_outcome outs self t g)) \<longrightarrow>
      fst (snd (complete_simulation get_outcome outs self t g)) = self"
    by (cases rule: complete_simulation_cases [of get_outcome self g outs t]) simp_all
qed (simp_all add: complete_simulation_def)

theorem complete_simulation_fails_iff_witness:
  "raising_outcome ann id = (Inl ZeroDivisionError, id) \<and>
   complete_simulation raising_outcome SIMULATION_OUTCOMES ann noon id =
     (Inl ZeroDivisionError, ann, id) \<and>
   custom_outcome ann id = (Inr ''MAYBE'', id) \<and> ''MAYBE'' \<notin> set SIMULATION_OUTCOMES \<and>
   complete_simulation custom_outcome SIMULATION_OUTCOMES ann noon id =
     (Inl (AssertionError ''The outcome from your logic is not a valid simulation outcome.''),
      ann, id) \<and>
   ''MAYBE'' \<in> set [''MAYBE''] \<and>
   complete_simulation custom_outcome [''MAYBE''] ann noon id =
     (Inr (),
      ann\<lparr>history :=
        [\<lparr>timestamp = ''2022-03-01 12:00:00'', user_id = ''u1'', type = ''QuickLearner'',
          name = ''Ann'', outcome = ''MAYBE''\<rparr>]\<rparr>,
      id)"
  using complete_simulation_fails_iff [of raising_outcome SIMULATION_OUTCOMES ann noon id
      ZeroDivisionError id]
    complete_simulation_fails_iff [of custom_outcome SIMULATION_OUTCOMES ann noon id _ id
      "''MAYBE''"]
    complete_simulation_fails_iff [of custom_outcome "[''MAYBE'']" ann noon id _ id "''MAYBE''"]
  by (simp add: raising_outcome_def custom_outcome_def SIMULATION_OUTCOMES_def ann_def
      subclass_init_def User_init_def noon_def strftime_def zero_pad_def)

text \<open>
  The claim C3 as stated fails in its only-if part: a method that raises makes
  \<^verbatim>\<open>complete_simulation\<close> fail although no outcome, valid or not, was returned.
\<close>

theorem complete_simulation_fails_without_outcome:
  "isl (fst (complete_simulation raising_outcome SIMULATION_OUTCOMES ann noon id)) \<and>
   fst (raising_outcome ann id) = Inl ZeroDivisionError"
  by (simp add: complete_simulation_def raising_outcome_def)

text \<open>
  C4. A call of \<^verbatim>\<open>complete_simulation\<close> that returns has appended exactly one result and
  changed nothing else: the old history is the new one without its last element, and
  identifier, type and name are the same. Over a sequence of calls the old history stays
  a prefix of the new one, whether or not a call fails, and after \<open>N\<close> calls that all
  return on a freshly constructed user the history has \<open>N\<close> elements.
\<close>

theorem history_append_only:
  "(complete_simulation get_outcome outs self t g = (Inr (), self', g') \<longrightarrow>
      length (history self') = length (history self) + 1 \<and>
      butlast (history self') = history self \<and>
      id_user self' = id_user self \<and> type_user self' = type_user self \<and>
      name_user self' = name_user self) \<and>
   (complete_simulations get_outcome outs self ts g = (r, self_end, g_end) \<longrightarrow>
      take (length (history self)) (history self_end) = history self \<and>
      length (history self_end) \<le> length (history self) + length ts \<and>
      id_user self_end = id_user self \<and> type_user self_end = type_user self \<and>
      name_user self_end = name_user self) \<and>
   (complete_simulations get_outcome outs (User_init uuid4_hex first_name label) ts g =
        (Inr (), self_n, g_n) \<longrightarrow>
      length (history self_n) = length ts)"
proof (intro conjI impI)
  assume c: "complete_simulation get_outcome outs self t g = (Inr (), self', g')"
  from complete_simulation_step [OF c] obtain oc where
    "self' = self\<lparr>history := history self @
        [\<lparr>timestamp = strftime t, user_id = id_user self, type = type_user self,
          name = name_user self, outcome = oc\<rparr>]\<rparr>"
    by blast
  then show "length (history self') = length (history self) + 1"
    "butlast (history self') = history self"
    "id_user self' = id_user self" "type_user self' = type_user self"
    "name_user self' = name_user self"
    by simp_all
next
  assume c: "complete_simulations get_outcome outs self ts g = (r, self_end, g_end)"
  from complete_simulations_grows [OF c] obtain new where
    n: "history self_end = history self @ new" "length new \<le> length ts"
    and i: "id_user self_end = id_user self" "type_user self_end = type_user self"
      "name_user self_end = name_user self"
    by blast
  from n show "take (length (history self)) (history self_end) = history self"
    "length (history self_end) \<le> length (history self) + length ts"
    by simp_all
  from i show "id_user self_end = id_user self" "type_user self_end = type_user self"
    "name_user self_end = name_user self"
    by simp_all
next
  assume c: "complete_simulations get_outcome outs (User_init uuid4_hex first_name label) ts g =
        (Inr (), self_n, g_n)"
  from complete_simulations_grows [OF c] show "length (history self_n) = length ts"
    by (auto simp: User_init_def)
qed

theorem history_append_only_witness:
  "complete_simulation (QuickLearner_get_simulation_outcome id SIMULATION_OUTCOMES)
     SIMULATION_OUTCOMES ann noon id = (Inr (), ann_after_one, Suc) \<and>
   length (history ann_after_one) = length (history ann) + 1 \<and>
   butlast (history ann_after_one) = history ann \<and>
   id_user ann_after_one = id_user ann \<and>
   complete_simulations (QuickLearner_get_simulation_outcome id SIMULATION_OUTCOMES)
     SIMULATION_OUTCOMES (User_init ''u1'' ''Ann'' ''QuickLearner'') three_days id =
     (Inr (), ann_after_three, (\<lambda>i. Suc (Suc (Suc i)))) \<and>
   length (history ann_after_three) = length three_days \<and>
   take (length (history (User_init ''u1'' ''Ann'' ''QuickLearner''))) (history ann_after_three) =
     history (User_init ''u1'' ''Ann'' ''QuickLearner'')"
  using ann_noon_step ann_three_days_run
    history_append_only [where get_outcome =
        "QuickLearner_get_simulation_outcome id SIMULATION_OUTCOMES"
      and outs = SIMULATION_OUTCOMES and self = "User_init ''u1'' ''Ann'' ''QuickLearner''"
      and g = id and ts = three_days and r = "Inr ()" and self_end = ann_after_three
      and g_end = "\<lambda>i. Suc (Suc (Suc i))" and uuid4_hex = "''u1''" and first_name = "''Ann''"
      and label = "''QuickLearner''" and self_n = ann_after_three
      and g_n = "\<lambda>i. Suc (Suc (Suc i))" and t = noon and self' = ann_after_one and g' = Suc]
  by (simp add: ann_def subclass_init_def)


text \<open>
  C10. Every entry of a user's history carries the user's identifier, type and name:
  a call of \<^verbatim>\<open>complete_simulation\<close> keeps this and keeps the three attributes, so it holds
  after any sequence of calls on a freshly constructed user, whether the calls return or
  raise. Hence, in the rows of two users with different identifiers, the rows with one
  user's identifier are exactly that user's history.
\<close>

theorem history_entries_bound_to_user:
  "(list_all (\<lambda>x. user_id x = id_user self \<and> type x = type_user self \<and>
        name x = name_user self) (history self) \<and>
    complete_simulation get_outcome outs self t g = (r, self', g') \<longrightarrow>
      list_all (\<lambda>x. user_id x = id_user self' \<and> type x = type_user self' \<and>
        name x = name_user self') (history self') \<and>
      id_user self' = id_user self \<and> type_user self' = type_user self \<and>
      name_user self' = name_user self) \<and>
   (complete_simulations get_outcome outs (User_init uuid4_hex first_name label) ts g =
        (r, self_n, g_n) \<longrightarrow>
      id_user self_n = uuid4_hex \<and> type_user self_n = label \<and> name_user self_n = first_name \<and>
      list_all (\<lambda>x. user_id x = uuid4_hex \<and> type x = label \<and> name x = first_name)
        (history self_n)) \<and>
   (list_all (\<lambda>x. user_id x = id_user u) (history u) \<and>
    list_all (\<lambda>x. user_id x = id_user v) (history v) \<and> id_user u \<noteq> id_user v \<longrightarrow>
      filter (\<lambda>x. user_id x = id_user u) (history u @ history v) = history u \<and>
      filter (\<lambda>x. user_id x = id_user v) (history u @ history v) = history v)"
proof (intro conjI impI; (elim conjE)?)
  assume b: "list_all (\<lambda>x. user_id x = id_user self \<and> type x = type_user self \<and>
        name x = name_user self) (history self)"
    and c: "complete_simulation get_outcome outs self t g = (r, self', g')"
  have "self' = self \<or> (\<exists>oc. self' = self\<lparr>history := history self @
        [\<lparr>timestamp = strftime t, user_id = id_user self, type = type_user self,
          name = name_user self, outcome = oc\<rparr>]\<rparr>)"
  proof (cases r)
    case (Inl e)
    with c show ?thesis by (simp add: complete_simulation_fail_same)
  next
    case (Inr x)
    with c show ?thesis using complete_simulation_step by blast
  qed
  with b show "list_all (\<lambda>x. user_id x = id_user self' \<and> type x = type_user self' \<and>
        name x = name_user self') (history self')"
    "id_user self' = id_user self" "type_user self' = type_user self"
    "name_user self' = name_user self"
    by auto
next
  assume c: "complete_simulations get_outcome outs (User_init uuid4_hex first_name label) ts g =
        (r, self_n, g_n)"
  from complete_simulations_grows [OF c] obtain new where
    "history self_n = history (User_init uuid4_hex first_name label) @ new"
    "list_all (\<lambda>x. user_id x = id_user (User_init uuid4_hex first_name label) \<and>
        type x = type_user (User_init uuid4_hex first_name label) \<and>
        name x = name_user (User_init uuid4_hex first_name label) \<and> outcome x \<in> set outs) new"
    and i: "id_user self_n = id_user (User_init uuid4_hex first_name label)"
      "type_user self_n = type_user (User_init uuid4_hex first_name label)"
      "name_user self_n = name_user (User_init uuid4_hex first_name label)"
    by blast
  then show "list_all (\<lambda>x. user_id x = uuid4_hex \<and> type x = label \<and> name x = first_name)
        (history self_n)"
    by (simp add: User_init_def list_all_iff)
  from i show "id_user self_n = uuid4_hex" "type_user self_n = label"
    "name_user self_n = first_name"
    by (simp_all add: User_init_def)
next
  assume "list_all (\<lambda>x. user_id x = id_user u) (history u)"
    "list_all (\<lambda>x. user_id x = id_user v) (history v)" "id_user u \<noteq> id_user v"
  then show "filter (\<lambda>x. user_id x = id_user u) (history u @ history v) = history u"
    "filter (\<lambda>x. user_id x = id_user v) (history u @ history v) = history v"
    by (simp_all add: filter_bound_other filter_bound_same)
qed

theorem history_entries_bound_to_user_witness:
  "list_all (\<lambda>x. user_id x = id_user ann \<and> type x = type_user ann \<and> name x = name_user ann)
     (history ann) \<and>
   complete_simulation (QuickLearner_get_simulation_outcome id SIMULATION_OUTCOMES)
     SIMULATION_OUTCOMES ann noon id = (Inr (), ann_after_one, Suc) \<and>
   list_all (\<lambda>x. user_id x = id_user ann_after_one \<and> type x = type_user ann_after_one \<and>
     name x = name_user ann_after_one) (history ann_after_one) \<and>
   complete_simulations (QuickLearner_get_simulation_outcome id SIMULATION_OUTCOMES)
     SIMULATION_OUTCOMES (User_init ''u1'' ''Ann'' ''QuickLearner'') three_days id =
     (Inr (), ann_after_three, (\<lambda>i. Suc (Suc (Suc i)))) \<and>
   list_all (\<lambda>x. user_id x = ''u1'' \<and> type x = ''QuickLearner'' \<and> name x = ''Ann'')
     (history ann_after_three) \<and>
   list_all (\<lambda>x. user_id x = id_user bob_after_one) (history bob_after_one) \<and>
   id_user ann_after_three \<noteq> id_user bob_after_one \<and>
   filter (\<lambda>x. user_id x = id_user ann_after_three)
     (history ann_after_three @ history bob_after_one) = history ann_after_three"
proof -
  have a: "list_all (\<lambda>x. user_id x = id_user ann \<and> type x = type_user ann \<and>
      name x = name_user ann) (history ann)"
    by (simp add: ann_def subclass_init_def User_init_def)
  have b: "list_all (\<lambda>x. user_id x = id_user bob_after_one) (history bob_after_one)"
    "list_all (\<lambda>x. user_id x = id_user ann_after_three) (history ann_after_three)"
    "id_user ann_after_three \<noteq> id_user bob_after_one"
    by (simp_all add: bob_after_one_def ann_after_three_def)
  from a b ann_noon_step ann_three_days_run
    history_entries_bound_to_user [where get_outcome =
        "QuickLearner_get_simulation_outcome id SIMULATION_OUTCOMES"
      and outs = SIMULATION_OUTCOMES and g = id and ts = three_days and r = "Inr ()"
      and uuid4_hex = "''u1''" and first_name = "''Ann''"
      and label = "''QuickLearner''" and self_n = ann_after_three
      and g_n = "\<lambda>i. Suc (Suc (Suc i))" and self = ann and t = noon and self' = ann_after_one
      and g' = Suc and u = ann_after_three and v = bob_after_one]
  show ?thesis by blast
qed

section \<open>The vocabulary\<close>




section \<open>The reports\<close>



end
